theory Spec2Isabelle
  imports Main
begin

section \<open>The routing decision engine (src/backend/src/router.ts)\<close>

text \<open>
  \<^verbatim>\<open>ModelName\<close> values are only ever produced inside \<^verbatim>\<open>routeTask\<close> from literals, so
  the union type is a datatype. \<^verbatim>\<open>TaskType\<close> and \<^verbatim>\<open>SlaTier\<close> are TypeScript unions of
  string literals as well, but they arrive from outside (the server passes the fields of
  \<^verbatim>\<open>req.body\<close> on unchecked, and the types are erased at run time), so the model keeps
  them as the strings the code compares with \<^verbatim>\<open>===\<close>. \<^verbatim>\<open>maxCostCents\<close> is an integer
  number of cents.
\<close>

datatype ModelName = gpt_4_1 | gpt_4_1_mini | rules_engine

record RouteInput =
  taskType :: string
  sla :: string
  maxCostCents :: int

record RouteOutput =
  model :: ModelName
  estimatedCostCents :: int
  estimatedLatencyMs :: int
  reason :: string

record Profile =
  costPerTask :: int
  latencyMs :: int

fun MODEL_PROFILE :: "ModelName \<Rightarrow> Profile" where
  "MODEL_PROFILE gpt_4_1 = \<lparr>costPerTask = 40, latencyMs = 1800\<rparr>"
| "MODEL_PROFILE gpt_4_1_mini = \<lparr>costPerTask = 10, latencyMs = 600\<rparr>"
| "MODEL_PROFILE rules_engine = \<lparr>costPerTask = 1, latencyMs = 100\<rparr>"

text \<open>What a template literal prints for a model name and for an integer number.\<close>

fun model_str :: "ModelName \<Rightarrow> string" where
  "model_str gpt_4_1 = ''gpt_4_1''"
| "model_str gpt_4_1_mini = ''gpt_4_1_mini''"
| "model_str rules_engine = ''rules_engine''"

definition digit_char :: "nat \<Rightarrow> char" where
  "digit_char d = ''0123456789'' ! d"

fun nat_str :: "nat \<Rightarrow> string" where
  "nat_str n = (if n < 10 then [digit_char n] else nat_str (n div 10) @ [digit_char (n mod 10)])"

declare nat_str.simps [simp del]

definition number_str :: "int \<Rightarrow> string" where
  \<comment> \<open>JavaScript prints an integer in plain decimal when it is a number it represents
      exactly (magnitude up to \<open>2^53\<close>); larger numbers are rounded, and from \<open>10^21\<close>
      printed with an exponent, which this function does not follow\<close>
  "number_str i = (if i < 0 then CHR ''-'' # nat_str (nat (- i)) else nat_str (nat i))"

definition routeTask :: "RouteInput \<Rightarrow> RouteOutput" where
  "routeTask input =
     (let candidate =
            (if sla input = ''high_quality'' then gpt_4_1
             else if sla input = ''low_latency'' then gpt_4_1_mini
             else rules_engine);
          chosen = candidate;
          chosen =
            (if costPerTask (MODEL_PROFILE chosen) > maxCostCents input then
               (let chosen = (if chosen = gpt_4_1 then gpt_4_1_mini else chosen)
                in if costPerTask (MODEL_PROFILE chosen) > maxCostCents input
                   then rules_engine else chosen)
             else chosen);
          profile = MODEL_PROFILE chosen;
          reason = ''Selected '' @ model_str chosen @ '' based on SLA='' @ sla input
                   @ '', taskType='' @ taskType input
                   @ '', maxCost='' @ number_str (maxCostCents input) @ ''c''
      in \<lparr>model = chosen,
          estimatedCostCents = costPerTask profile,
          estimatedLatencyMs = latencyMs profile,
          reason = reason\<rparr>)"

section \<open>The persistence and storage collaborators (schema: tables of the database)\<close>

text \<open>
  The database is the sequence of the rows in the order in which they were inserted; each
  of the five tables is the subsequence of its own rows. An update changes rows in place.
  Identifiers are the uuids the database generates (\<^verbatim>\<open>id uuid primary key\<close>). Column
  names carry a one-letter prefix of their table, since several tables share column names
  with each other and with the router's records.
\<close>

type_synonym uuid = string

datatype task_status = pending | running | completed | failed

datatype file_status = uploaded | processing | ready | file_failed

record task_row =
  t_id :: uuid
  t_task_type :: string
  t_sla :: string
  t_input_text :: "string option"
  t_max_cost_cents :: int
  t_status :: task_status
  t_transcript_id :: "uuid option"

record decision_row =
  d_id :: uuid
  d_task_id :: uuid
  d_chosen_model :: ModelName
  d_reason :: string
  d_estimated_cost_cents :: int
  d_estimated_latency_ms :: int

record run_row =
  r_id :: uuid
  r_task_id :: uuid
  r_model :: ModelName
  r_token_input :: int
  r_token_output :: int
  r_latency_ms :: int
  r_cost_cents :: int
  r_success :: bool

record file_row =
  f_id :: uuid
  f_file_name :: string
  f_file_type :: string
  f_storage_path :: string
  f_status :: file_status

record transcript_row =
  x_id :: uuid
  x_file_id :: uuid
  x_text :: "string option"
  x_language :: "string option"
  x_duration_seconds :: "int option"
  x_status :: file_status

datatype entry =
    Task task_row
  | Decision decision_row
  | Run run_row
  | File file_row
  | Transcript transcript_row

record world =
  rows :: "entry list"
  bucket :: "(string \<times> string) list"

definition initial :: world where
  "initial = \<lparr>rows = [], bucket = []\<rparr>"

fun tasks :: "entry list \<Rightarrow> task_row list" where
  "tasks [] = []"
| "tasks (Task t # es) = t # tasks es"
| "tasks (_ # es) = tasks es"

fun routing_decisions :: "entry list \<Rightarrow> decision_row list" where
  "routing_decisions [] = []"
| "routing_decisions (Decision d # es) = d # routing_decisions es"
| "routing_decisions (_ # es) = routing_decisions es"

fun model_runs :: "entry list \<Rightarrow> run_row list" where
  "model_runs [] = []"
| "model_runs (Run r # es) = r # model_runs es"
| "model_runs (_ # es) = model_runs es"

fun uploaded_files :: "entry list \<Rightarrow> file_row list" where
  "uploaded_files [] = []"
| "uploaded_files (File f # es) = f # uploaded_files es"
| "uploaded_files (_ # es) = uploaded_files es"

fun transcripts :: "entry list \<Rightarrow> transcript_row list" where
  "transcripts [] = []"
| "transcripts (Transcript x # es) = x # transcripts es"
| "transcripts (_ # es) = transcripts es"

definition decisions_for :: "uuid \<Rightarrow> entry list \<Rightarrow> decision_row list" where
  "decisions_for t es = filter (\<lambda>d. d_task_id d = t) (routing_decisions es)"

text \<open>
  What the outside world does during one request: the identifiers that are generated, the
  random number drawn (\<open>random_jitter\<close> stands for \<^verbatim>\<open>Math.round(Math.random() * 200)\<close>,
  a number from 0 to 200), the environment variable, and for every call to a collaborator
  the error it reports, if any. A call that reports an error changes nothing.
\<close>

datatype fetch_result = Rejected string | Responded nat

record env =
  N8N_FILE_WEBHOOK_URL :: "string option"
  randomUUID :: uuid
  random_jitter :: nat
  gen_file_id :: uuid
  gen_transcript_id :: uuid
  gen_task_id :: uuid
  gen_decision_id :: uuid
  gen_run_id :: uuid
  upload_error :: "string option"
  file_insert_error :: "string option"
  transcript_insert_error :: "string option"
  fetch_result :: fetch_result
  file_select_error :: "string option"
  download_error :: "string option"
  transcript_update_error :: "string option"
  task_insert_error :: "string option"
  decision_insert_error :: "string option"
  run_insert_error :: "string option"
  task_update_error :: "string option"
  file_update_error :: "string option"

definition duplicate_key :: string where
  "duplicate_key = ''duplicate key value violates unique constraint''"

definition insert_task :: "string option \<Rightarrow> task_row \<Rightarrow> world \<Rightarrow> (string + task_row) \<times> world" where
  "insert_task err row w =
     (case err of
        Some msg \<Rightarrow> (Inl msg, w)
      | None \<Rightarrow>
          if t_id row \<in> set (map t_id (tasks (rows w))) then (Inl duplicate_key, w)
          else (Inr row, w\<lparr>rows := rows w @ [Task row]\<rparr>))"

definition insert_decision ::
  "string option \<Rightarrow> decision_row \<Rightarrow> world \<Rightarrow> (string + decision_row) \<times> world" where
  "insert_decision err row w =
     (case err of
        Some msg \<Rightarrow> (Inl msg, w)
      | None \<Rightarrow>
          if d_id row \<in> set (map d_id (routing_decisions (rows w))) then (Inl duplicate_key, w)
          else (Inr row, w\<lparr>rows := rows w @ [Decision row]\<rparr>))"

definition insert_run :: "string option \<Rightarrow> run_row \<Rightarrow> world \<Rightarrow> (string + run_row) \<times> world" where
  "insert_run err row w =
     (case err of
        Some msg \<Rightarrow> (Inl msg, w)
      | None \<Rightarrow>
          if r_id row \<in> set (map r_id (model_runs (rows w))) then (Inl duplicate_key, w)
          else (Inr row, w\<lparr>rows := rows w @ [Run row]\<rparr>))"

definition insert_file :: "string option \<Rightarrow> file_row \<Rightarrow> world \<Rightarrow> (string + file_row) \<times> world" where
  "insert_file err row w =
     (case err of
        Some msg \<Rightarrow> (Inl msg, w)
      | None \<Rightarrow>
          if f_id row \<in> set (map f_id (uploaded_files (rows w))) then (Inl duplicate_key, w)
          else (Inr row, w\<lparr>rows := rows w @ [File row]\<rparr>))"

definition insert_transcript ::
  "string option \<Rightarrow> transcript_row \<Rightarrow> world \<Rightarrow> (string + transcript_row) \<times> world" where
  "insert_transcript err row w =
     (case err of
        Some msg \<Rightarrow> (Inl msg, w)
      | None \<Rightarrow>
          if x_id row \<in> set (map x_id (transcripts (rows w))) then (Inl duplicate_key, w)
          else (Inr row, w\<lparr>rows := rows w @ [Transcript row]\<rparr>))"

fun set_task_status :: "uuid \<Rightarrow> task_status \<Rightarrow> entry \<Rightarrow> entry" where
  "set_task_status i s (Task t) = (if t_id t = i then Task (t\<lparr>t_status := s\<rparr>) else Task t)"
| "set_task_status i s e = e"

fun set_file_status :: "uuid \<Rightarrow> file_status \<Rightarrow> entry \<Rightarrow> entry" where
  "set_file_status i s (File f) = (if f_id f = i then File (f\<lparr>f_status := s\<rparr>) else File f)"
| "set_file_status i s e = e"

fun set_transcript :: "uuid \<Rightarrow> string \<Rightarrow> entry \<Rightarrow> entry" where
  "set_transcript i txt (Transcript x) =
     (if x_id x = i
      then Transcript (x\<lparr>x_text := Some txt, x_language := Some ''en'',
                         x_duration_seconds := Some 3600, x_status := ready\<rparr>)
      else Transcript x)"
| "set_transcript i txt e = e"

definition update_task_status ::
  "string option \<Rightarrow> uuid \<Rightarrow> task_status \<Rightarrow> world \<Rightarrow> string option \<times> world" where
  "update_task_status err i s w =
     (case err of
        Some msg \<Rightarrow> (Some msg, w)
      | None \<Rightarrow> (None, w\<lparr>rows := map (set_task_status i s) (rows w)\<rparr>))"

definition update_file_status ::
  "string option \<Rightarrow> uuid \<Rightarrow> file_status \<Rightarrow> world \<Rightarrow> string option \<times> world" where
  "update_file_status err i s w =
     (case err of
        Some msg \<Rightarrow> (Some msg, w)
      | None \<Rightarrow> (None, w\<lparr>rows := map (set_file_status i s) (rows w)\<rparr>))"

definition update_transcript ::
  "string option \<Rightarrow> uuid \<Rightarrow> string \<Rightarrow> world \<Rightarrow> string option \<times> world" where
  "update_transcript err i txt w =
     (case err of
        Some msg \<Rightarrow> (Some msg, w)
      | None \<Rightarrow> (None, w\<lparr>rows := map (set_transcript i txt) (rows w)\<rparr>))"

definition no_rows :: string where
  "no_rows = ''JSON object requested, multiple (or no) rows returned''"

definition select_file :: "string option \<Rightarrow> uuid \<Rightarrow> world \<Rightarrow> string + file_row" where
  \<comment> \<open>\<^verbatim>\<open>.select('*').eq('id', fileId).single()\<close>\<close>
  "select_file err i w =
     (case err of
        Some msg \<Rightarrow> Inl msg
      | None \<Rightarrow>
          (case find (\<lambda>f. f_id f = i) (uploaded_files (rows w)) of
             None \<Rightarrow> Inl no_rows
           | Some f \<Rightarrow> Inr f))"

definition storage_upload ::
  "string option \<Rightarrow> string \<Rightarrow> string \<Rightarrow> world \<Rightarrow> string option \<times> world" where
  "storage_upload err path content w =
     (case err of
        Some msg \<Rightarrow> (Some msg, w)
      | None \<Rightarrow>
          if path \<in> set (map fst (bucket w)) then (Some ''The resource already exists'', w)
          else (None, w\<lparr>bucket := (path, content) # bucket w\<rparr>))"

definition storage_download :: "string option \<Rightarrow> string \<Rightarrow> world \<Rightarrow> string + string" where
  \<comment> \<open>the download gives the stored bytes; the handler reads them as text, which is the
      same bytes for well-formed UTF-8\<close>
  "storage_download err path w =
     (case err of
        Some msg \<Rightarrow> Inl msg
      | None \<Rightarrow>
          (case map_of (bucket w) path of
             None \<Rightarrow> Inl ''Object not found''
           | Some content \<Rightarrow> Inr content))"

section \<open>The HTTP handlers (src/server.ts, src/upload.ts)\<close>

text \<open>
  A handler takes the outside world's behaviour during the request, the request and the
  state, and returns the response with the new state. The body of a request is optional:
  \<^verbatim>\<open>req.body\<close> is undefined when the request carries no JSON body, and destructuring it
  throws inside the handler's \<^verbatim>\<open>try\<close>. A body that is present gives the task type and
  the SLA tier as strings and the ceiling as an integer. A supabase call never throws, it
  returns its error; \<^verbatim>\<open>throw\<close> inside the handler's \<^verbatim>\<open>try\<close> ends in the
  \<^verbatim>\<open>catch\<close>, which answers with status 500 and the error's message. What is written
  to the console is not part of the state.
\<close>

record tasks_body =
  b_taskType :: string
  b_sla :: string
  b_inputText :: "string option"
  b_maxCostCents :: int
  b_transcriptId :: "uuid option"

record route_body =
  rb_fileId :: "uuid option"
  rb_transcriptId :: "uuid option"

record upload_file =
  originalname :: string
  mimetype :: string
  buffer :: string

datatype response =
    Json_tasks task_row decision_row RouteOutput
  | Json_route task_row decision_row
  | Json_upload file_row transcript_row
  | Json_error nat string

definition cannot_destructure :: "string \<Rightarrow> string" where
  \<comment> \<open>the message of the \<^verbatim>\<open>TypeError\<close> thrown by destructuring an undefined \<^verbatim>\<open>req.body\<close>\<close>
  "cannot_destructure p =
     ''Cannot destructure property '' @ [CHR 0x27] @ p @ [CHR 0x27] @ '' of ''
     @ [CHR 0x27] @ ''req.body'' @ [CHR 0x27] @ '' as it is undefined.''"

definition post_tasks :: "env \<Rightarrow> tasks_body option \<Rightarrow> world \<Rightarrow> response \<times> world" where
  "post_tasks env req_body w =
     (case req_body of
        None \<Rightarrow> (Json_error 500 (cannot_destructure ''taskType''), w)
      | Some body \<Rightarrow>
      case insert_task (task_insert_error env)
             \<lparr>t_id = gen_task_id env,
              t_task_type = b_taskType body,
              t_sla = b_sla body,
              t_input_text = b_inputText body,
              t_max_cost_cents = b_maxCostCents body,
              t_status = pending,
              t_transcript_id = b_transcriptId body\<rparr> w of
        (Inl taskErr, w) \<Rightarrow> (Json_error 500 taskErr, w)
      | (Inr task, w) \<Rightarrow>
          (let routing = routeTask \<lparr>taskType = b_taskType body, sla = b_sla body,
                                    maxCostCents = b_maxCostCents body\<rparr>
           in case insert_decision (decision_insert_error env)
                     \<lparr>d_id = gen_decision_id env,
                      d_task_id = t_id task,
                      d_chosen_model = model routing,
                      d_reason = reason routing,
                      d_estimated_cost_cents = estimatedCostCents routing,
                      d_estimated_latency_ms = estimatedLatencyMs routing\<rparr> w of
                (Inl decErr, w) \<Rightarrow> (Json_error 500 decErr, w)
              | (Inr decision, w) \<Rightarrow>
                  (let latency = estimatedLatencyMs routing + int (random_jitter env);
                       cost = estimatedCostCents routing;
                       \<comment> \<open>\<^verbatim>\<open>runErr\<close> is written to the console only; the
                           \<^verbatim>\<open>throw runErr\<close> is commented out\<close>
                       (runRes, w) = insert_run (run_insert_error env)
                                       \<lparr>r_id = gen_run_id env,
                                        r_task_id = t_id task,
                                        r_model = model routing,
                                        r_token_input = 500,
                                        r_token_output = 200,
                                        r_latency_ms = latency,
                                        r_cost_cents = cost,
                                        r_success = True\<rparr> w;
                       \<comment> \<open>the result of the update is not looked at\<close>
                       (updRes, w) = update_task_status (task_update_error env)
                                       (t_id task) completed w
                   in (Json_tasks task decision routing, w))))"

definition is_space :: "char \<Rightarrow> bool" where
  \<comment> \<open>the ASCII white space that \<^verbatim>\<open>trim\<close> removes; it also removes the Unicode
      white space beyond ASCII (such as U+00A0), which this byte-wise test leaves in place\<close>
  "is_space c = (c \<in> {CHR '' '', CHR 0x09, CHR 0x0A, CHR 0x0B, CHR 0x0C, CHR 0x0D})"

definition trim :: "string \<Rightarrow> string" where
  "trim s = rev (dropWhile is_space (rev (dropWhile is_space s)))"

definition mock_transcript :: "file_row \<Rightarrow> string" where
  "mock_transcript fileRow =
     ''Mock transcript for '' @ f_file_name fileRow @ '' stored at '' @ f_storage_path fileRow
     @ ''.'' @ [CHR 0x0A]
     @ ''This simulates a real transcript generated from the uploaded file.''"

definition post_transcribe_and_route ::
  "env \<Rightarrow> route_body option \<Rightarrow> world \<Rightarrow> response \<times> world" where
  "post_transcribe_and_route env req_body w =
     (case req_body of
        None \<Rightarrow> (Json_error 500 (cannot_destructure ''fileId''), w)
      | Some body \<Rightarrow>
      case (rb_fileId body, rb_transcriptId body) of
        (None, _) \<Rightarrow> (Json_error 400 ''fileId and transcriptId are required'', w)
      | (_, None) \<Rightarrow> (Json_error 400 ''fileId and transcriptId are required'', w)
      | (Some fileId, Some transcriptId) \<Rightarrow>
        (if fileId = [] \<or> transcriptId = []
         then (Json_error 400 ''fileId and transcriptId are required'', w)
         else
          case select_file (file_select_error env) fileId w of
             Inl fileErr \<Rightarrow> (Json_error 500 (''File not found: '' @ fileErr), w)
           | Inr fileRow \<Rightarrow>
              (case storage_download (download_error env) (f_storage_path fileRow) w of
                 Inl downloadErr \<Rightarrow> (Json_error 500 (''Download failed: '' @ downloadErr), w)
               | Inr fileData \<Rightarrow>
                  (let transcriptText = fileData;
                       transcriptText =
                         (if transcriptText = [] \<or> length (trim transcriptText) = 0
                          then mock_transcript fileRow else transcriptText)
                   in case update_transcript (transcript_update_error env)
                             transcriptId transcriptText w of
                        (Some trErr, w) \<Rightarrow>
                          (Json_error 500 (''Transcript update failed: '' @ trErr), w)
                      | (None, w) \<Rightarrow>
                         (let taskType = ''summary''; sla = ''high_quality''; maxCostCents = 100
                          in case insert_task (task_insert_error env)
                                    \<lparr>t_id = gen_task_id env,
                                     t_task_type = taskType,
                                     t_sla = sla,
                                     t_input_text = Some transcriptText,
                                     t_max_cost_cents = maxCostCents,
                                     t_status = pending,
                                     t_transcript_id = Some transcriptId\<rparr> w of
                               (Inl taskErr, w) \<Rightarrow>
                                 (Json_error 500 (''Task insert failed: '' @ taskErr), w)
                             | (Inr task, w) \<Rightarrow>
                                (let routing = routeTask \<lparr>taskType = taskType, sla = sla,
                                                          maxCostCents = maxCostCents\<rparr>
                                 in case insert_decision (decision_insert_error env)
                                           \<lparr>d_id = gen_decision_id env,
                                            d_task_id = t_id task,
                                            d_chosen_model = model routing,
                                            d_reason = reason routing,
                                            d_estimated_cost_cents = estimatedCostCents routing,
                                            d_estimated_latency_ms = estimatedLatencyMs routing\<rparr> w of
                                      (Inl decErr, w) \<Rightarrow>
                                        (Json_error 500
                                           (''Routing decision insert failed: '' @ decErr), w)
                                    | (Inr decision, w) \<Rightarrow>
                                       (let latency = estimatedLatencyMs routing
                                                      + int (random_jitter env);
                                            cost = estimatedCostCents routing
                                        in case insert_run (run_insert_error env)
                                                  \<lparr>r_id = gen_run_id env,
                                                   r_task_id = t_id task,
                                                   r_model = model routing,
                                                   r_token_input = 500,
                                                   r_token_output = 200,
                                                   r_latency_ms = latency,
                                                   r_cost_cents = cost,
                                                   r_success = True\<rparr> w of
                                             (Inl runErr, w) \<Rightarrow>
                                               (Json_error 500
                                                  (''Model run insert failed: '' @ runErr), w)
                                           | (Inr run, w) \<Rightarrow>
                                              (let (updRes, w) =
                                                     update_file_status (file_update_error env)
                                                       fileId ready w
                                               in (Json_route task decision, w)))))))))"

fun split_on :: "char \<Rightarrow> string \<Rightarrow> string list" where
  "split_on c [] = [[]]"
| "split_on c (x # xs) =
     (if x = c then [] # split_on c xs
      else (case split_on c xs of
              [] \<Rightarrow> [[x]]
            | y # ys \<Rightarrow> (x # y) # ys))"

definition post_upload :: "env \<Rightarrow> upload_file option \<Rightarrow> world \<Rightarrow> response \<times> world" where
  "post_upload env file w =
     (case file of
        None \<Rightarrow> (Json_error 400 ''No file uploaded'', w)
      | Some file \<Rightarrow>
         (let id = randomUUID env;
              ext = last (split_on CHR ''.'' (originalname file));
              storagePath = ''raw/'' @ id @ ''.'' @ ext
          in case storage_upload (upload_error env) storagePath (buffer file) w of
               (Some storageErr, w) \<Rightarrow> (Json_error 500 storageErr, w)
             | (None, w) \<Rightarrow>
                (case insert_file (file_insert_error env)
                        \<lparr>f_id = gen_file_id env,
                         f_file_name = originalname file,
                         f_file_type = mimetype file,
                         f_storage_path = storagePath,
                         f_status = uploaded\<rparr> w of
                   (Inl fileErr, w) \<Rightarrow> (Json_error 500 fileErr, w)
                 | (Inr fileRow, w) \<Rightarrow>
                    (case insert_transcript (transcript_insert_error env)
                            \<lparr>x_id = gen_transcript_id env,
                             x_file_id = f_id fileRow,
                             x_text = None,
                             x_language = None,
                             x_duration_seconds = None,
                             x_status = processing\<rparr> w of
                       (Inl trErr, w) \<Rightarrow> (Json_error 500 trErr, w)
                     | (Inr transcriptRow, w) \<Rightarrow>
                        (if N8N_FILE_WEBHOOK_URL env \<notin> {None, Some []}
                         then (case fetch_result env of
                                 Rejected msg \<Rightarrow> (Json_error 500 msg, w)
                               | Responded status \<Rightarrow> (Json_upload fileRow transcriptRow, w))
                         else (Json_upload fileRow transcriptRow, w))))))"

text \<open>The server answers a sequence of requests, one after the other.\<close>

datatype request =
    Post_tasks "tasks_body option"
  | Post_transcribe_and_route "route_body option"
  | Post_upload "upload_file option"

fun handle :: "env \<Rightarrow> request \<Rightarrow> world \<Rightarrow> response \<times> world" where
  "handle env (Post_tasks body) w = post_tasks env body w"
| "handle env (Post_transcribe_and_route body) w = post_transcribe_and_route env body w"
| "handle env (Post_upload file) w = post_upload env file w"

fun serve :: "(env \<times> request) list \<Rightarrow> world \<Rightarrow> world" where
  "serve [] w = w"
| "serve ((env, req) # reqs) w = serve reqs (snd (handle env req w))"

section \<open>The audit trail\<close>

text \<open>
  \<open>decided_first S es\<close>: reading the rows \<open>es\<close> in the order they were written, every
  execution record comes after a routing decision of its task (or its task is in \<open>S\<close>).
\<close>

fun decided_first :: "uuid set \<Rightarrow> entry list \<Rightarrow> bool" where
  "decided_first S [] = True"
| "decided_first S (Decision d # es) = decided_first (insert (d_task_id d) S) es"
| "decided_first S (Run r # es) = (r_task_id r \<in> S \<and> decided_first S es)"
| "decided_first S (_ # es) = decided_first S es"

text \<open>
  The audit trail is consistent when every routing decision belongs to a task, no task has
  two routing decisions, and execution records follow the decision of their task.
\<close>

definition consistent :: "entry list \<Rightarrow> bool" where
  "consistent es \<longleftrightarrow>
     (\<forall>d \<in> set (routing_decisions es). d_task_id d \<in> set (map t_id (tasks es)))
     \<and> (\<forall>t. length (decisions_for t es) \<le> 1)
     \<and> decided_first {} es"

text \<open>
  An update is benign for the audit trail: it keeps the kind of every row, the identifier,
  text and ceiling of a task, and every routing decision and execution record as it is.
\<close>

definition benign :: "(entry \<Rightarrow> entry) \<Rightarrow> bool" where
  "benign f \<longleftrightarrow>
     (\<forall>t. \<exists>t'. f (Task t) = Task t' \<and> t_id t' = t_id t
                \<and> t_max_cost_cents t' = t_max_cost_cents t \<and> t_input_text t' = t_input_text t)
     \<and> (\<forall>d. f (Decision d) = Decision d)
     \<and> (\<forall>r. f (Run r) = Run r)
     \<and> (\<forall>x. \<exists>x'. f (File x) = File x')
     \<and> (\<forall>x. \<exists>x'. f (Transcript x) = Transcript x')"

text \<open>The HTTP status of a response: \<^verbatim>\<open>res.json\<close> alone answers with 200.\<close>

fun status_code :: "response \<Rightarrow> nat" where
  "status_code (Json_error code msg) = code"
| "status_code _ = 200"

text \<open>An outside world in which every call succeeds, for the examples.\<close>

definition quiet_env :: env where
  "quiet_env =
     \<lparr>N8N_FILE_WEBHOOK_URL = Some ''http://localhost:5678/webhook/airr'',
      randomUUID = ''u1'', random_jitter = 7,
      gen_file_id = ''f1'', gen_transcript_id = ''x1'', gen_task_id = ''t1'',
      gen_decision_id = ''d1'', gen_run_id = ''r1'',
      upload_error = None, file_insert_error = None, transcript_insert_error = None,
      fetch_result = Responded 200,
      file_select_error = None, download_error = None, transcript_update_error = None,
      task_insert_error = None, decision_insert_error = None, run_insert_error = None,
      task_update_error = None, file_update_error = None\<rparr>"

definition sample_body :: tasks_body where
  "sample_body =
     \<lparr>b_taskType = ''summary'', b_sla = ''high_quality'', b_inputText = Some ''hello'',
      b_maxCostCents = - 5, b_transcriptId = None\<rparr>"

definition plain_body :: tasks_body where
  "plain_body =
     \<lparr>b_taskType = ''summary'', b_sla = ''high_quality'', b_inputText = Some ''hello'',
      b_maxCostCents = 50, b_transcriptId = None\<rparr>"

definition sample_file :: upload_file where
  "sample_file = \<lparr>originalname = ''call.txt'', mimetype = ''text/plain'', buffer = ''hi''\<rparr>"

definition sample_task :: task_row where
  "sample_task =
     \<lparr>t_id = ''t1'', t_task_type = ''summary'', t_sla = ''high_quality'',
      t_input_text = Some ''hello'', t_max_cost_cents = - 5, t_status = pending,
      t_transcript_id = None\<rparr>"

definition sample_decision :: decision_row where
  "sample_decision =
     \<lparr>d_id = ''d1'', d_task_id = ''t1'', d_chosen_model = rules_engine,
      d_reason = ''Selected rules_engine based on SLA=high_quality, taskType=summary, maxCost=-5c'',
      d_estimated_cost_cents = 1, d_estimated_latency_ms = 100\<rparr>"

definition sample_run :: run_row where
  "sample_run =
     \<lparr>r_id = ''r1'', r_task_id = ''t1'', r_model = rules_engine, r_token_input = 500,
      r_token_output = 200, r_latency_ms = 107, r_cost_cents = 1, r_success = True\<rparr>"

definition sample_file_row :: file_row where
  "sample_file_row =
     \<lparr>f_id = ''f1'', f_file_name = ''call.txt'', f_file_type = ''text/plain'',
      f_storage_path = ''raw/u1.txt'', f_status = uploaded\<rparr>"

definition sample_transcript_row :: transcript_row where
  "sample_transcript_row =
     \<lparr>x_id = ''x1'', x_file_id = ''f1'', x_text = None, x_language = None,
      x_duration_seconds = None, x_status = processing\<rparr>"

definition sample_trigger :: route_body where
  "sample_trigger = \<lparr>rb_fileId = Some ''f1'', rb_transcriptId = Some ''x1''\<rparr>"

definition second_env :: env where
  "second_env = quiet_env\<lparr>gen_task_id := ''t2'', gen_decision_id := ''d2'', gen_run_id := ''r2''\<rparr>"

section \<open>Properties of the routing decision engine\<close>

lemma routeTask_model:
  "model (routeTask i) =
     (if sla i = ''high_quality'' then
        (if 40 \<le> maxCostCents i then gpt_4_1
         else if 10 \<le> maxCostCents i then gpt_4_1_mini else rules_engine)
      else if sla i = ''low_latency'' then
        (if 10 \<le> maxCostCents i then gpt_4_1_mini else rules_engine)
      else rules_engine)"
  by (simp add: routeTask_def Let_def)

text \<open>
  C1. For each of the three SLA tiers and every integer budget ceiling that is at least the
  cost of the minimal-cost backend (1), the backend that \<open>routeTask\<close> returns has a
  catalog cost of at most the ceiling.
\<close>

theorem routeTask_within_budget:
  assumes "sla i \<in> {''low_latency'', ''low_cost'', ''high_quality''}"
    and "costPerTask (MODEL_PROFILE rules_engine) \<le> maxCostCents i"
  shows "costPerTask (MODEL_PROFILE (model (routeTask i))) \<le> maxCostCents i"
  using assms by (auto simp: routeTask_model)

theorem routeTask_within_budget_witness:
  "sla \<lparr>taskType = ''summary'', sla = ''high_quality'', maxCostCents = 25\<rparr>
     \<in> {''low_latency'', ''low_cost'', ''high_quality''}
   \<and> costPerTask (MODEL_PROFILE rules_engine)
       \<le> maxCostCents \<lparr>taskType = ''summary'', sla = ''high_quality'', maxCostCents = 25\<rparr>
   \<and> costPerTask (MODEL_PROFILE (model (routeTask
         \<lparr>taskType = ''summary'', sla = ''high_quality'', maxCostCents = 25\<rparr>))) \<le> 25"
  using routeTask_within_budget
    [of "\<lparr>taskType = ''summary'', sla = ''high_quality'', maxCostCents = 25\<rparr>"]
  by simp

text \<open>
  C2. With SLA \<open>high_quality\<close>, \<open>routeTask\<close> returns \<open>gpt_4_1\<close> for a ceiling of 40,
  \<open>gpt_4_1_mini\<close> for a ceiling of 39, and \<open>rules_engine\<close> for every ceiling that is zero
  or negative. \<open>routeTask\<close> has no failing branch: it returns an output for every input.
\<close>

theorem routeTask_high_quality:
  "model (routeTask \<lparr>taskType = t, sla = ''high_quality'', maxCostCents = 40\<rparr>) = gpt_4_1
   \<and> model (routeTask \<lparr>taskType = t, sla = ''high_quality'', maxCostCents = 39\<rparr>) = gpt_4_1_mini
   \<and> (\<forall>c \<le> 0. model (routeTask \<lparr>taskType = t, sla = ''high_quality'', maxCostCents = c\<rparr>)
                 = rules_engine)"
  by (simp add: routeTask_model)

theorem routeTask_high_quality_witness:
  "(- 3 :: int) \<le> 0
   \<and> model (routeTask \<lparr>taskType = ''summary'', sla = ''high_quality'', maxCostCents = - 3\<rparr>)
       = rules_engine"
  using routeTask_high_quality [of "''summary''"] by simp

text \<open>
  C3, as the spec states it: an SLA tier outside the three known ones makes the engine fail
  with \<open>InvalidInput\<close>. The code has no such check: the last \<open>else\<close> takes every other
  tier, so an unknown tier is answered with a routing decision.
\<close>

theorem routeTask_unknown_sla_counterexample:
  "''platinum'' \<notin> {''low_latency'', ''low_cost'', ''high_quality''}
   \<and> routeTask \<lparr>taskType = ''summary'', sla = ''platinum'', maxCostCents = 100\<rparr>
       = \<lparr>model = rules_engine, estimatedCostCents = 1, estimatedLatencyMs = 100,
          reason = ''Selected rules_engine based on SLA=platinum, taskType=summary, maxCost=100c''\<rparr>"
  by (simp add: routeTask_def Let_def number_str_def nat_str.simps digit_char_def)

text \<open>
  C3, amended: for every input whose SLA tier is not one of the three known tiers,
  \<open>routeTask\<close> returns the \<open>rules_engine\<close> backend with its catalog estimates, whatever
  the budget ceiling: the tier is treated like \<open>low_cost\<close>.
\<close>

theorem routeTask_unknown_sla:
  assumes "sla i \<notin> {''low_latency'', ''low_cost'', ''high_quality''}"
  shows "model (routeTask i) = rules_engine
         \<and> estimatedCostCents (routeTask i) = 1
         \<and> estimatedLatencyMs (routeTask i) = 100
         \<and> model (routeTask i) = model (routeTask (i\<lparr>sla := ''low_cost''\<rparr>))"
  using assms by (simp add: routeTask_def Let_def)

theorem routeTask_unknown_sla_witness:
  "sla \<lparr>taskType = ''summary'', sla = ''platinum'', maxCostCents = 100\<rparr>
     \<notin> {''low_latency'', ''low_cost'', ''high_quality''}
   \<and> model (routeTask \<lparr>taskType = ''summary'', sla = ''platinum'', maxCostCents = 100\<rparr>)
       = rules_engine"
  using routeTask_unknown_sla
    [of "\<lparr>taskType = ''summary'', sla = ''platinum'', maxCostCents = 100\<rparr>"]
  by simp

text \<open>
  C10. For every input the returned model is one of the three catalog backends, and the
  returned estimates are exactly the catalog's cost and latency of that model. The
  estimated cost can therefore exceed the ceiling, as it does for a ceiling of zero; the
  output record has no field that flags this.
\<close>

theorem routeTask_catalog_consistent:
  "model (routeTask i) \<in> {gpt_4_1, gpt_4_1_mini, rules_engine}
   \<and> estimatedCostCents (routeTask i) = costPerTask (MODEL_PROFILE (model (routeTask i)))
   \<and> estimatedLatencyMs (routeTask i) = latencyMs (MODEL_PROFILE (model (routeTask i)))
   \<and> estimatedCostCents (routeTask \<lparr>taskType = t, sla = s, maxCostCents = 0\<rparr>) > 0"
  by (simp add: routeTask_def Let_def)

section \<open>The audit trail stays consistent\<close>

lemma tasks_append [simp]: "tasks (es @ es') = tasks es @ tasks es'"
  by (induction es rule: tasks.induct) simp_all

lemma routing_decisions_append [simp]:
  "routing_decisions (es @ es') = routing_decisions es @ routing_decisions es'"
  by (induction es rule: routing_decisions.induct) simp_all

lemma model_runs_append [simp]: "model_runs (es @ es') = model_runs es @ model_runs es'"
  by (induction es rule: model_runs.induct) simp_all

lemma decisions_for_append [simp]:
  "decisions_for t (es @ es') = decisions_for t es @ decisions_for t es'"
  by (simp add: decisions_for_def)

lemma decided_first_append:
  "decided_first S (es @ es') \<longleftrightarrow>
     decided_first S es \<and> decided_first (S \<union> d_task_id ` set (routing_decisions es)) es'"
  by (induction S es rule: decided_first.induct) simp_all

lemma benign_updates [simp]:
  "benign (set_task_status i s)" "benign (set_file_status i fs)" "benign (set_transcript i txt)"
  "benign (set_file_status i fs \<circ> set_transcript j txt)"
  by (auto simp: benign_def)

lemma routing_decisions_map:
  assumes "benign f"
  shows "routing_decisions (map f es) = routing_decisions es"
proof (induction es)
  case Nil
  show ?case by simp
next
  case (Cons e es)
  show ?case
  proof (cases e)
    case (Task t)
    from assms obtain t' where "f (Task t) = Task t'" unfolding benign_def by blast
    with Task Cons show ?thesis by simp
  next
    case (Decision d)
    with assms Cons show ?thesis by (simp add: benign_def)
  next
    case (Run r)
    with assms Cons show ?thesis by (simp add: benign_def)
  next
    case (File x)
    from assms obtain x' where "f (File x) = File x'" unfolding benign_def by blast
    with File Cons show ?thesis by simp
  next
    case (Transcript x)
    from assms obtain x' where "f (Transcript x) = Transcript x'" unfolding benign_def by blast
    with Transcript Cons show ?thesis by simp
  qed
qed

lemma tasks_map_ids:
  assumes "benign f"
  shows "map t_id (tasks (map f es)) = map t_id (tasks es)"
proof (induction es)
  case Nil
  show ?case by simp
next
  case (Cons e es)
  show ?case
  proof (cases e)
    case (Task t)
    from assms obtain t' where "f (Task t) = Task t'" "t_id t' = t_id t"
      unfolding benign_def by blast
    with Task Cons show ?thesis by simp
  next
    case (Decision d)
    with assms Cons show ?thesis by (simp add: benign_def)
  next
    case (Run r)
    with assms Cons show ?thesis by (simp add: benign_def)
  next
    case (File x)
    from assms obtain x' where "f (File x) = File x'" unfolding benign_def by blast
    with File Cons show ?thesis by simp
  next
    case (Transcript x)
    from assms obtain x' where "f (Transcript x) = Transcript x'" unfolding benign_def by blast
    with Transcript Cons show ?thesis by simp
  qed
qed

lemma tasks_map_id_set:
  assumes "benign f"
  shows "t_id ` set (tasks (map f es)) = t_id ` set (tasks es)"
  using tasks_map_ids [OF assms, of es] by (metis set_map)

lemma decisions_for_map: "benign f \<Longrightarrow> decisions_for t (map f es) = decisions_for t es"
  by (simp add: decisions_for_def routing_decisions_map)

lemma decided_first_map:
  assumes "benign f"
  shows "decided_first S (map f es) = decided_first S es"
proof (induction es arbitrary: S)
  case Nil
  show ?case by simp
next
  case (Cons e es)
  show ?case
  proof (cases e)
    case (Task t)
    from assms obtain t' where "f (Task t) = Task t'" unfolding benign_def by blast
    with Task Cons show ?thesis by simp
  next
    case (Decision d)
    with assms Cons show ?thesis by (simp add: benign_def)
  next
    case (Run r)
    with assms Cons show ?thesis by (simp add: benign_def)
  next
    case (File x)
    from assms obtain x' where "f (File x) = File x'" unfolding benign_def by blast
    with File Cons show ?thesis by simp
  next
    case (Transcript x)
    from assms obtain x' where "f (Transcript x) = Transcript x'" unfolding benign_def by blast
    with Transcript Cons show ?thesis by simp
  qed
qed

lemma consistent_map: "benign f \<Longrightarrow> consistent (map f es) = consistent es"
  by (simp add: consistent_def routing_decisions_map tasks_map_ids decisions_for_map
      decided_first_map)

lemma decisions_for_fresh:
  assumes "consistent es" and "t \<notin> set (map t_id (tasks es))"
  shows "decisions_for t es = []"
  using assms by (auto simp: consistent_def decisions_for_def filter_empty_conv)

lemma consistent_neutral:
  "consistent (es @ File f # es') = consistent (es @ es')"
  "consistent (es @ Transcript x # es') = consistent (es @ es')"
  by (simp_all add: consistent_def decided_first_append decisions_for_def)

lemma consistent_task:
  assumes "consistent es"
  shows "consistent (es @ [Task t])"
  using assms by (simp add: consistent_def decided_first_append decisions_for_def)

lemma consistent_decision:
  assumes "consistent es" and "d_task_id d \<in> set (map t_id (tasks es))"
    and "decisions_for (d_task_id d) es = []"
  shows "consistent (es @ [Decision d])"
  using assms by (auto simp: consistent_def decided_first_append decisions_for_def)

lemma consistent_run:
  assumes "consistent es" and "decisions_for (r_task_id r) es \<noteq> []"
  shows "consistent (es @ [Run r])"
proof -
  from assms(2) obtain d where "d \<in> set (routing_decisions es)" "d_task_id d = r_task_id r"
    by (auto simp: decisions_for_def filter_empty_conv)
  then have "r_task_id r \<in> d_task_id ` set (routing_decisions es)"
    by (metis imageI)
  with assms(1) show ?thesis
    by (simp add: consistent_def decided_first_append decisions_for_def)
qed

lemma consistent_routed:
  assumes "consistent es" and "t_id t \<notin> set (map t_id (tasks es))" and "d_task_id d = t_id t"
  shows "consistent (es @ [Task t])"
    and "consistent (es @ [Task t, Decision d])"
    and "r_task_id r = t_id t \<Longrightarrow> consistent (es @ [Task t, Decision d, Run r])"
    and "decisions_for (t_id t) (es @ [Task t, Decision d]) = [d]"
proof -
  have fresh: "decisions_for (t_id t) es = []"
    using assms(1,2) by (rule decisions_for_fresh)
  show 1: "consistent (es @ [Task t])"
    using assms(1) by (rule consistent_task)
  have "consistent ((es @ [Task t]) @ [Decision d])"
    using 1 assms(3) fresh by (intro consistent_decision) (simp_all add: decisions_for_def)
  then show 2: "consistent (es @ [Task t, Decision d])" by simp
  show 4: "decisions_for (t_id t) (es @ [Task t, Decision d]) = [d]"
    using fresh assms(3) by (simp add: decisions_for_def)
  show "consistent (es @ [Task t, Decision d, Run r])" if "r_task_id r = t_id t"
  proof -
    have "consistent ((es @ [Task t, Decision d]) @ [Run r])"
      using 2 4 that by (intro consistent_run) simp_all
    then show ?thesis by simp
  qed
qed


lemma post_tasks_consistent:
  assumes "consistent (rows w)"
  shows "consistent (rows (snd (post_tasks env body w)))"
  using assms
  by (simp add: post_tasks_def insert_task_def insert_decision_def insert_run_def
      update_task_status_def Let_def consistent_map consistent_routed consistent_task
      tasks_map_ids split: option.splits)

lemma post_upload_consistent:
  assumes "consistent (rows w)"
  shows "consistent (rows (snd (post_upload env file w)))"
  using assms
  by (simp add: post_upload_def storage_upload_def insert_file_def insert_transcript_def
      Let_def consistent_neutral split: option.splits fetch_result.splits)

lemma post_transcribe_and_route_consistent:
  assumes "consistent (rows w)"
  shows "consistent (rows (snd (post_transcribe_and_route env body w)))"
  using assms
  by (simp add: post_transcribe_and_route_def select_file_def storage_download_def
      update_transcript_def insert_task_def insert_decision_def insert_run_def
      update_file_status_def Let_def consistent_map consistent_routed consistent_task
      tasks_map_ids split: option.splits)


lemma handle_consistent:
  "consistent (rows w) \<Longrightarrow> consistent (rows (snd (handle env req w)))"
  by (cases req)
    (simp_all add: post_tasks_consistent post_transcribe_and_route_consistent
      post_upload_consistent)

lemma serve_consistent:
  "consistent (rows w) \<Longrightarrow> consistent (rows (serve reqs w))"
  by (induction reqs arbitrary: w) (auto simp: handle_consistent)

lemma initial_consistent: "consistent (rows initial)"
  by (simp add: initial_def consistent_def decisions_for_def)

lemma decided_before:
  assumes "consistent es" and "es = pre @ Run r # post"
  shows "length (decisions_for (r_task_id r) es) = 1"
    and "length (decisions_for (r_task_id r) pre) = 1"
proof -
  from assms have "r_task_id r \<in> d_task_id ` set (routing_decisions pre)"
    by (simp add: consistent_def decided_first_append)
  then have pre: "decisions_for (r_task_id r) pre \<noteq> []"
    by (auto simp: decisions_for_def filter_empty_conv)
  have le: "length (decisions_for (r_task_id r) es) \<le> 1"
    using assms(1) by (simp add: consistent_def)
  have "length (decisions_for (r_task_id r) pre) \<le> length (decisions_for (r_task_id r) es)"
    using assms(2) by simp
  moreover from pre have "1 \<le> length (decisions_for (r_task_id r) pre)"
    by (cases "decisions_for (r_task_id r) pre") simp_all
  ultimately show "length (decisions_for (r_task_id r) pre) = 1"
    using le by linarith
  with le assms(2) show "length (decisions_for (r_task_id r) es) = 1"
    by simp
qed


lemma post_tasks_keeps_decisions:
  assumes "t \<in> set (map t_id (tasks (rows w)))"
  shows "decisions_for t (rows (snd (post_tasks env body w))) = decisions_for t (rows w)
         \<and> t \<in> set (map t_id (tasks (rows (snd (post_tasks env body w)))))"
  using assms
  by (auto simp: post_tasks_def insert_task_def insert_decision_def insert_run_def
      update_task_status_def Let_def decisions_for_map tasks_map_id_set
      decisions_for_def [of _ "[_]"] decisions_for_def [of _ "[_, _]"]
      decisions_for_def [of _ "[_, _, _]"]
      split: option.splits)


lemma post_upload_keeps_decisions:
  assumes "t \<in> set (map t_id (tasks (rows w)))"
  shows "decisions_for t (rows (snd (post_upload env file w))) = decisions_for t (rows w)
         \<and> t \<in> set (map t_id (tasks (rows (snd (post_upload env file w)))))"
  using assms
  by (auto simp: post_upload_def storage_upload_def insert_file_def insert_transcript_def
      Let_def decisions_for_def [of _ "[_]"] decisions_for_def [of _ "[_, _]"]
      split: option.splits fetch_result.splits)

lemma post_transcribe_and_route_keeps_decisions:
  assumes "t \<in> set (map t_id (tasks (rows w)))"
  shows "decisions_for t (rows (snd (post_transcribe_and_route env body w)))
           = decisions_for t (rows w)
         \<and> t \<in> set (map t_id (tasks (rows (snd (post_transcribe_and_route env body w)))))"
  using assms
  by (auto simp: post_transcribe_and_route_def select_file_def storage_download_def
      update_transcript_def insert_task_def insert_decision_def insert_run_def
      update_file_status_def Let_def decisions_for_map tasks_map_id_set
      decisions_for_def [of _ "[_]"] decisions_for_def [of _ "[_, _]"]
      decisions_for_def [of _ "[_, _, _]"]
      split: option.splits)

lemma serve_keeps_decisions:
  assumes "t \<in> set (map t_id (tasks (rows w)))"
  shows "decisions_for t (rows (serve reqs w)) = decisions_for t (rows w)"
  using assms
proof (induction reqs arbitrary: w)
  case Nil
  show ?case by simp
next
  case (Cons a reqs)
  obtain env req where a: "a = (env, req)" by (cases a)
  have "decisions_for t (rows (snd (handle env req w))) = decisions_for t (rows w)
        \<and> t \<in> set (map t_id (tasks (rows (snd (handle env req w)))))"
    using Cons.prems
    by (cases req)
      (simp_all only: handle.simps post_tasks_keeps_decisions
        post_transcribe_and_route_keeps_decisions post_upload_keeps_decisions)
  with Cons.IH [of "snd (handle env req w)"] a show ?case by simp
qed

lemma post_tasks_decision:
  assumes "consistent (rows w)"
    and "post_tasks env body w = (Json_tasks task decision routing, w')"
  shows "decisions_for (t_id task) (rows w') = [decision]
         \<and> t_id task \<in> set (map t_id (tasks (rows w')))"
proof -
  have fresh: "gen_task_id env \<notin> set (map t_id (tasks (rows w)))
               \<Longrightarrow> decisions_for (gen_task_id env) (rows w) = []"
    using assms(1) by (rule decisions_for_fresh)
  show ?thesis
    using assms(2) fresh
    by (auto simp: post_tasks_def insert_task_def insert_decision_def insert_run_def
        update_task_status_def Let_def decisions_for_map tasks_map_id_set
        decisions_for_def [of _ "[_]"] decisions_for_def [of _ "[_, _]"]
        decisions_for_def [of _ "[_, _, _]"]
        split: option.splits if_splits)
qed

section \<open>Properties of the handlers\<close>

text \<open>
  C4, as the spec states it: routing the same task a second time yields an
  \<open>AlreadyRouted\<close> error and a single routing decision persists. The code has no
  operation that routes an existing task and no such error. Sending the same request to
  \<open>POST /api/tasks\<close> again is answered with 200 and leaves two routing decisions; a
  second delivery of the same trigger to \<open>POST /api/transcribe-and-route\<close> is answered
  with 200 as well and leaves two routed tasks for the one transcript.
\<close>

theorem route_twice_counterexample:
  "status_code (fst (post_tasks second_env (Some sample_body)
       (snd (post_tasks quiet_env (Some sample_body) initial)))) = 200
   \<and> map d_task_id (routing_decisions (rows (serve
         [(quiet_env, Post_tasks (Some sample_body)), (second_env, Post_tasks (Some sample_body))] initial)))
       = [''t1'', ''t2'']
   \<and> status_code (fst (post_transcribe_and_route second_env (Some sample_trigger)
         (serve [(quiet_env, Post_upload (Some sample_file)),
                 (quiet_env, Post_transcribe_and_route (Some sample_trigger))] initial))) = 200
   \<and> map t_transcript_id (tasks (rows (serve
         [(quiet_env, Post_upload (Some sample_file)),
          (quiet_env, Post_transcribe_and_route (Some sample_trigger)),
          (second_env, Post_transcribe_and_route (Some sample_trigger))] initial)))
       = [Some ''x1'', Some ''x1'']
   \<and> map d_task_id (routing_decisions (rows (serve
         [(quiet_env, Post_upload (Some sample_file)),
          (quiet_env, Post_transcribe_and_route (Some sample_trigger)),
          (second_env, Post_transcribe_and_route (Some sample_trigger))] initial)))
       = [''t1'', ''t2'']"
  by (simp add: quiet_env_def second_env_def sample_body_def sample_file_def
      sample_trigger_def initial_def post_tasks_def post_upload_def
      post_transcribe_and_route_def storage_upload_def storage_download_def select_file_def
      insert_file_def insert_transcript_def insert_task_def insert_decision_def
      insert_run_def update_task_status_def update_transcript_def update_file_status_def
      trim_def is_space_def Let_def)

lemma post_transcribe_and_route_decision:
  assumes "consistent (rows w)"
    and "post_transcribe_and_route env body w = (Json_route task decision, w')"
  shows "decisions_for (t_id task) (rows w') = [decision]
         \<and> t_id task \<in> set (map t_id (tasks (rows w')))"
proof -
  have fresh: "gen_task_id env \<notin> set (map t_id (tasks (rows w)))
               \<Longrightarrow> decisions_for (gen_task_id env) (rows w) = []"
    using assms(1) by (rule decisions_for_fresh)
  show ?thesis
    using assms(2) fresh
    by (auto simp: post_transcribe_and_route_def select_file_def storage_download_def
        update_transcript_def insert_task_def insert_decision_def insert_run_def
        update_file_status_def Let_def decisions_for_map tasks_map_id_set
        decisions_for_def [of _ "[_]"] decisions_for_def [of _ "[_, _]"]
        decisions_for_def [of _ "[_, _, _]"]
        split: option.splits if_splits)
qed

lemma post_tasks_response:
  "post_tasks env body w \<noteq> (Json_route task decision, w')"
  by (auto simp: post_tasks_def Let_def split: prod.splits sum.splits option.splits)

lemma post_transcribe_and_route_response:
  "post_transcribe_and_route env body w \<noteq> (Json_tasks task decision routing, w')"
  by (auto simp: post_transcribe_and_route_def Let_def
      split: prod.splits sum.splits option.splits)

lemma post_upload_response:
  "post_upload env file w \<noteq> (Json_tasks task decision routing, w')"
  "post_upload env file w \<noteq> (Json_route task decision, w')"
  by (auto simp: post_upload_def Let_def
      split: prod.splits sum.splits option.splits fetch_result.splits)

text \<open>
  C4, amended: routing is a one-time commitment for every task the server creates. A
  request that is answered with a task and its routing decision (by either routing
  endpoint, after any earlier requests) leaves exactly that one routing decision for the
  task, and it stays the only one after any sequence of later requests. No request is
  refused as already routed: a repeated request creates and routes a new task.
\<close>

theorem routed_once:
  assumes "handle env req (serve earlier initial) = (resp, w')"
    and "resp = Json_tasks task decision routing \<or> resp = Json_route task decision"
  shows "decisions_for (t_id task) (rows (serve later w')) = [decision]"
proof -
  have c: "consistent (rows (serve earlier initial))"
    using initial_consistent by (rule serve_consistent)
  have "decisions_for (t_id task) (rows w') = [decision]
        \<and> t_id task \<in> set (map t_id (tasks (rows w')))"
  proof (cases req)
    case (Post_tasks body)
    with assms have "post_tasks env body (serve earlier initial)
                     = (Json_tasks task decision routing, w')"
      using post_tasks_response [of env body "serve earlier initial" task decision w']
      by auto
    then show ?thesis by (rule post_tasks_decision [OF c])
  next
    case (Post_transcribe_and_route body)
    with assms have "post_transcribe_and_route env body (serve earlier initial)
                     = (Json_route task decision, w')"
      using post_transcribe_and_route_response
        [of env body "serve earlier initial" task decision routing w']
      by auto
    then show ?thesis by (rule post_transcribe_and_route_decision [OF c])
  next
    case (Post_upload upl)
    with assms have False
      using post_upload_response [of env upl "serve earlier initial"] by fastforce
    then show ?thesis ..
  qed
  then show ?thesis
    using serve_keeps_decisions [of "t_id task" w' later] by simp
qed

theorem routed_once_witness:
  "fst (handle quiet_env (Post_tasks (Some sample_body)) (serve [] initial))
     = Json_tasks sample_task sample_decision
         (routeTask \<lparr>taskType = ''summary'', sla = ''high_quality'', maxCostCents = - 5\<rparr>)
   \<and> decisions_for ''t1''
         (rows (serve [(second_env, Post_tasks (Some sample_body))]
            (snd (handle quiet_env (Post_tasks (Some sample_body)) (serve [] initial)))))
       = [sample_decision]"
proof -
  let ?X = "handle quiet_env (Post_tasks (Some sample_body)) (serve [] initial)"
  let ?R = "routeTask \<lparr>taskType = ''summary'', sla = ''high_quality'', maxCostCents = - 5\<rparr>"
  have h: "fst ?X = Json_tasks sample_task sample_decision ?R"
    by (simp add: quiet_env_def sample_body_def sample_task_def sample_decision_def
        initial_def post_tasks_def insert_task_def insert_decision_def insert_run_def
        update_task_status_def Let_def)
      (simp add: routeTask_def Let_def number_str_def nat_str.simps digit_char_def)
  have "decisions_for (t_id sample_task)
          (rows (serve [(second_env, Post_tasks (Some sample_body))] (snd ?X))) = [sample_decision]"
    using routed_once [of quiet_env "Post_tasks (Some sample_body)" "[]" "fst ?X" "snd ?X"
        sample_task sample_decision ?R "[(second_env, Post_tasks (Some sample_body))]"] h
    by simp
  with h show ?thesis by (simp add: sample_task_def)
qed

text \<open>
  C5, as the spec states it: a request whose budget ceiling is not a non-negative integer
  fails with \<open>InvalidInput\<close> and persists no task. The handler checks nothing: a request
  with the ceiling \<open>-5\<close> is answered with 200 and its task is stored with that ceiling.
\<close>

theorem create_negative_ceiling_counterexample:
  "b_maxCostCents sample_body < 0
   \<and> status_code (fst (post_tasks quiet_env (Some sample_body) initial)) = 200
   \<and> map t_max_cost_cents (tasks (rows (snd (post_tasks quiet_env (Some sample_body) initial))))
       = [- 5]"
  by (simp add: quiet_env_def sample_body_def initial_def post_tasks_def insert_task_def
      insert_decision_def insert_run_def update_task_status_def Let_def)

text \<open>
  C5, amended: task creation in \<open>POST /api/tasks\<close> validates nothing itself and has no
  \<open>InvalidInput\<close> error. A request without a body fails with a 500 and changes nothing.
  A request whose body gives an integer ceiling (negative or not) and a text or none
  fails before any state change when the persistence collaborator rejects the insert
  of the task (an error it reports, or an identifier that is taken): the answer is then a
  500 with the collaborator's message and no task is stored. When the insert is accepted,
  the task is stored with the text and the ceiling of the request as they are. Ceilings
  that are not integers are outside this statement.
\<close>

theorem create_fails_only_in_insert:
  "post_tasks env None w = (Json_error 500 (cannot_destructure ''taskType''), w)
   \<and> (task_insert_error env = Some e
        \<longrightarrow> post_tasks env (Some body) w = (Json_error 500 e, w))
   \<and> (task_insert_error env = None \<and> gen_task_id env \<in> set (map t_id (tasks (rows w)))
        \<longrightarrow> post_tasks env (Some body) w = (Json_error 500 duplicate_key, w))
   \<and> (task_insert_error env = None \<and> gen_task_id env \<notin> set (map t_id (tasks (rows w)))
        \<longrightarrow> (\<exists>t \<in> set (tasks (rows (snd (post_tasks env (Some body) w)))).
               t_id t = gen_task_id env \<and> t_input_text t = b_inputText body
               \<and> t_max_cost_cents t = b_maxCostCents body))"
  by (simp add: post_tasks_def insert_task_def insert_decision_def insert_run_def
      update_task_status_def Let_def split: option.splits)

theorem create_fails_only_in_insert_witness:
  "task_insert_error (quiet_env\<lparr>task_insert_error := Some ''connection refused''\<rparr>)
     = Some ''connection refused''
   \<and> post_tasks (quiet_env\<lparr>task_insert_error := Some ''connection refused''\<rparr>)
        (Some sample_body) initial = (Json_error 500 ''connection refused'', initial)
   \<and> task_insert_error quiet_env = None
   \<and> gen_task_id quiet_env \<notin> set (map t_id (tasks (rows initial)))
   \<and> (\<exists>t \<in> set (tasks (rows (snd (post_tasks quiet_env (Some sample_body) initial)))).
         t_id t = ''t1'' \<and> t_input_text t = Some ''hello'' \<and> t_max_cost_cents t = - 5)"
proof -
  have h: "task_insert_error quiet_env = None
           \<and> gen_task_id quiet_env \<notin> set (map t_id (tasks (rows initial)))"
    by (simp add: quiet_env_def initial_def)
  have "\<exists>t \<in> set (tasks (rows (snd (post_tasks quiet_env (Some sample_body) initial)))).
          t_id t = gen_task_id quiet_env \<and> t_input_text t = b_inputText sample_body
          \<and> t_max_cost_cents t = b_maxCostCents sample_body"
    using create_fails_only_in_insert [where env = quiet_env and w = initial
        and body = sample_body] h
    by blast
  then have 3: "\<exists>t \<in> set (tasks (rows (snd (post_tasks quiet_env (Some sample_body) initial)))).
          t_id t = ''t1'' \<and> t_input_text t = Some ''hello'' \<and> t_max_cost_cents t = - 5"
    by (simp add: quiet_env_def sample_body_def)
  have 1: "post_tasks (quiet_env\<lparr>task_insert_error := Some ''connection refused''\<rparr>)
             (Some sample_body) initial = (Json_error 500 ''connection refused'', initial)"
    using create_fails_only_in_insert
      [where env = "quiet_env\<lparr>task_insert_error := Some ''connection refused''\<rparr>"
         and w = initial and e = "''connection refused''" and body = sample_body]
    by simp
  from 1 3 h show ?thesis by simp
qed

text \<open>
  C6, on the code: when the insert of the execution record fails in \<open>POST /api/tasks\<close>,
  the error is only written to the console; the request is answered with 200, no
  execution record exists, and the task is marked completed.
\<close>

theorem run_insert_failure_marks_completed:
  "status_code (fst (post_tasks (quiet_env\<lparr>run_insert_error := Some ''connection refused''\<rparr>)
       (Some plain_body) initial)) = 200
   \<and> model_runs (rows (snd (post_tasks
         (quiet_env\<lparr>run_insert_error := Some ''connection refused''\<rparr>) (Some plain_body) initial)))
       = []
   \<and> map (\<lambda>t. (t_id t, t_status t)) (tasks (rows (snd (post_tasks
         (quiet_env\<lparr>run_insert_error := Some ''connection refused''\<rparr>) (Some plain_body) initial))))
       = [(''t1'', completed)]
   \<and> map (\<lambda>d. (d_task_id d, d_chosen_model d)) (routing_decisions (rows (snd (post_tasks
         (quiet_env\<lparr>run_insert_error := Some ''connection refused''\<rparr>) (Some plain_body) initial))))
       = [(''t1'', gpt_4_1)]"
  by (simp add: quiet_env_def plain_body_def initial_def post_tasks_def insert_task_def
      insert_decision_def insert_run_def update_task_status_def Let_def routeTask_model)

text \<open>
  C7. After any sequence of requests, every execution record in the database has exactly
  one routing decision of its task, and that decision is among the rows written before the
  execution record: no execution record is ever stored for a task without a stored
  routing decision.
\<close>

theorem decision_before_execution:
  assumes "rows (serve reqs initial) = pre @ Run r # post"
  shows "length (decisions_for (r_task_id r) (rows (serve reqs initial))) = 1
         \<and> length (decisions_for (r_task_id r) pre) = 1"
  using decided_before [OF serve_consistent [OF initial_consistent] assms] by simp

theorem decision_before_execution_witness:
  "rows (serve [(quiet_env, Post_tasks (Some sample_body))] initial)
     = [Task (sample_task\<lparr>t_status := completed\<rparr>), Decision sample_decision]
       @ Run sample_run # []
   \<and> length (decisions_for ''t1'' [Task (sample_task\<lparr>t_status := completed\<rparr>),
                                     Decision sample_decision]) = 1"
proof -
  have h: "rows (serve [(quiet_env, Post_tasks (Some sample_body))] initial)
           = [Task (sample_task\<lparr>t_status := completed\<rparr>), Decision sample_decision]
             @ Run sample_run # []"
    by (simp add: quiet_env_def sample_body_def sample_task_def sample_decision_def
        sample_run_def initial_def post_tasks_def insert_task_def insert_decision_def
        insert_run_def update_task_status_def Let_def)
      (simp add: routeTask_def Let_def number_str_def nat_str.simps digit_char_def)
  from decision_before_execution [OF h] h show ?thesis
    by (simp add: sample_run_def)
qed

text \<open>
  C8, as the spec states it: a failed notification is swallowed and never reaches the
  caller. In the code the \<open>fetch\<close> is awaited inside the handler's \<open>try\<close>: when it
  rejects, the caller gets a 500 with the message of the rejection.
\<close>

theorem notification_failure_counterexample:
  "post_upload (quiet_env\<lparr>fetch_result := Rejected ''fetch failed''\<rparr>) (Some sample_file) initial
     = (Json_error 500 ''fetch failed'',
        \<lparr>rows = [File sample_file_row, Transcript sample_transcript_row],
         bucket = [(''raw/u1.txt'', ''hi'')]\<rparr>)"
  by (simp add: quiet_env_def sample_file_def sample_file_row_def sample_transcript_row_def
      initial_def post_upload_def storage_upload_def insert_file_def insert_transcript_def
      Let_def)

text \<open>
  C8, amended: for every ingestion request, the outcome of the notification changes
  nothing in what is stored: the artifact and transcript records (and the stored file)
  are the same whether the notification is sent or not and whatever its outcome, so
  nothing is rolled back. A notification that is answered with any HTTP status is ignored.
  A notification whose \<open>fetch\<close> rejects is propagated: where the request would have
  succeeded without the notification, the caller gets a 500 with the rejection's message,
  and the records just created are still there.
\<close>

theorem notification_outcome:
  "snd (post_upload (env\<lparr>N8N_FILE_WEBHOOK_URL := url, fetch_result := res\<rparr>) upl w)
     = snd (post_upload env upl w)
   \<and> post_upload (env\<lparr>fetch_result := Responded st\<rparr>) upl w
       = post_upload (env\<lparr>N8N_FILE_WEBHOOK_URL := None\<rparr>) upl w
   \<and> (N8N_FILE_WEBHOOK_URL env \<notin> {None, Some []} \<and> fetch_result env = Rejected msg
       \<and> post_upload (env\<lparr>N8N_FILE_WEBHOOK_URL := None\<rparr>) upl w
           = (Json_upload fileRow transcriptRow, w')
       \<longrightarrow> post_upload env upl w = (Json_error 500 msg, w')
           \<and> File fileRow \<in> set (rows w') \<and> Transcript transcriptRow \<in> set (rows w'))"
  by (auto simp: post_upload_def storage_upload_def insert_file_def insert_transcript_def
      Let_def split: option.splits fetch_result.splits if_splits)

theorem notification_outcome_witness:
  "N8N_FILE_WEBHOOK_URL (quiet_env\<lparr>fetch_result := Rejected ''fetch failed''\<rparr>)
     \<notin> {None, Some []}
   \<and> fetch_result (quiet_env\<lparr>fetch_result := Rejected ''fetch failed''\<rparr>)
       = Rejected ''fetch failed''
   \<and> fst (post_upload (quiet_env\<lparr>fetch_result := Rejected ''fetch failed'',
                                  N8N_FILE_WEBHOOK_URL := None\<rparr>) (Some sample_file) initial)
       = Json_upload sample_file_row sample_transcript_row
   \<and> fst (post_upload (quiet_env\<lparr>fetch_result := Rejected ''fetch failed''\<rparr>)
            (Some sample_file) initial) = Json_error 500 ''fetch failed''"
proof -
  let ?env = "quiet_env\<lparr>fetch_result := Rejected ''fetch failed''\<rparr>"
  let ?X = "post_upload (?env\<lparr>N8N_FILE_WEBHOOK_URL := None\<rparr>) (Some sample_file) initial"
  have h1: "N8N_FILE_WEBHOOK_URL ?env \<notin> {None, Some []}"
    and h2: "fetch_result ?env = Rejected ''fetch failed''"
    by (simp_all add: quiet_env_def)
  have h3: "fst ?X = Json_upload sample_file_row sample_transcript_row"
    by (simp add: quiet_env_def sample_file_def sample_file_row_def
        sample_transcript_row_def initial_def post_upload_def storage_upload_def
        insert_file_def insert_transcript_def Let_def)
  then have h4: "?X = (Json_upload sample_file_row sample_transcript_row, snd ?X)"
    by (metis prod.collapse)
  from notification_outcome [where env = ?env and upl = "Some sample_file" and w = initial
      and msg = "''fetch failed''" and fileRow = sample_file_row
      and transcriptRow = sample_transcript_row and w' = "snd ?X"]
    h1 h2 h4
  have "post_upload ?env (Some sample_file) initial = (Json_error 500 ''fetch failed'', snd ?X)"
    by blast
  with h1 h2 h3 show ?thesis by simp
qed

end
